theory Spec2Isabelle
  imports Complex_Main "HOL-Library.Multiset"
begin

section \<open>Floating-point values\<close>

text \<open>
  The program computes with numpy's \<open>float64\<close>. A value is modelled as a finite real,
  one of the two infinities, or NaN. Finite arithmetic is exact: rounding, overflow to
  infinity and underflow are not modelled, and zero carries no sign (it behaves as
  \<open>+0.0\<close>). The special values follow IEEE 754 as numpy applies it: an operation on
  NaN gives NaN, \<open>inf - inf\<close>, \<open>0 * inf\<close>, \<open>0 / 0\<close> and \<open>inf / inf\<close> give NaN, a
  non-zero finite value divided by zero gives an infinity, and every comparison with
  NaN is false. numpy reports these cases by a warning, never by an exception.
\<close>

datatype npfloat = Fin real | PInf | NInf | NaN

fun np_neg :: "npfloat \<Rightarrow> npfloat" where
  "np_neg (Fin a) = Fin (- a)"
| "np_neg PInf = NInf"
| "np_neg NInf = PInf"
| "np_neg NaN = NaN"

fun np_add :: "npfloat \<Rightarrow> npfloat \<Rightarrow> npfloat" where
  "np_add (Fin a) (Fin b) = Fin (a + b)"
| "np_add NaN _ = NaN"
| "np_add _ NaN = NaN"
| "np_add PInf NInf = NaN"
| "np_add NInf PInf = NaN"
| "np_add PInf _ = PInf"
| "np_add _ PInf = PInf"
| "np_add NInf _ = NInf"
| "np_add _ NInf = NInf"

definition np_sub :: "npfloat \<Rightarrow> npfloat \<Rightarrow> npfloat" where
  "np_sub a b = np_add a (np_neg b)"

fun np_abs :: "npfloat \<Rightarrow> npfloat" where
  "np_abs (Fin a) = Fin \<bar>a\<bar>"
| "np_abs PInf = PInf"
| "np_abs NInf = PInf"
| "np_abs NaN = NaN"

text \<open>The sign of an infinite product or quotient: \<open>inf\<close> for \<open>True\<close>.\<close>

definition signed_inf :: "bool \<Rightarrow> npfloat" where
  "signed_inf positive = (if positive then PInf else NInf)"

fun np_mul :: "npfloat \<Rightarrow> npfloat \<Rightarrow> npfloat" where
  "np_mul (Fin a) (Fin b) = Fin (a * b)"
| "np_mul NaN _ = NaN"
| "np_mul _ NaN = NaN"
| "np_mul (Fin a) PInf = (if a = 0 then NaN else signed_inf (0 < a))"
| "np_mul (Fin a) NInf = (if a = 0 then NaN else signed_inf (a < 0))"
| "np_mul PInf (Fin b) = (if b = 0 then NaN else signed_inf (0 < b))"
| "np_mul NInf (Fin b) = (if b = 0 then NaN else signed_inf (b < 0))"
| "np_mul PInf PInf = PInf"
| "np_mul PInf NInf = NInf"
| "np_mul NInf PInf = NInf"
| "np_mul NInf NInf = PInf"

fun np_div :: "npfloat \<Rightarrow> npfloat \<Rightarrow> npfloat" where
  "np_div (Fin a) (Fin b) =
     (if b = 0 then (if a = 0 then NaN else signed_inf (0 < a)) else Fin (a / b))"
| "np_div NaN _ = NaN"
| "np_div _ NaN = NaN"
| "np_div (Fin a) PInf = Fin 0"
| "np_div (Fin a) NInf = Fin 0"
| "np_div PInf (Fin b) = signed_inf (0 \<le> b)"
| "np_div NInf (Fin b) = signed_inf (b < 0)"
| "np_div PInf PInf = NaN"
| "np_div PInf NInf = NaN"
| "np_div NInf PInf = NaN"
| "np_div NInf NInf = NaN"

text \<open>\<open>x ** n\<close> for a non-negative integer exponent.\<close>

fun np_pow :: "npfloat \<Rightarrow> nat \<Rightarrow> npfloat" where
  "np_pow (Fin a) n = Fin (a ^ n)"
| "np_pow PInf n = (if n = 0 then Fin 1 else PInf)"
| "np_pow NInf n = (if n = 0 then Fin 1 else if even n then PInf else NInf)"
| "np_pow NaN n = (if n = 0 then Fin 1 else NaN)"

text \<open>\<open>10 ** x\<close> for a float exponent.\<close>

fun np_exp10 :: "npfloat \<Rightarrow> npfloat" where
  "np_exp10 (Fin a) = Fin (10 powr a)"
| "np_exp10 PInf = PInf"
| "np_exp10 NInf = Fin 0"
| "np_exp10 NaN = NaN"

text \<open>\<open>np.log\<close>: minus infinity at zero, NaN below zero.\<close>

fun np_log :: "npfloat \<Rightarrow> npfloat" where
  "np_log (Fin a) = (if a = 0 then NInf else if a < 0 then NaN else Fin (ln a))"
| "np_log PInf = PInf"
| "np_log NInf = NaN"
| "np_log NaN = NaN"

fun np_lt :: "npfloat \<Rightarrow> npfloat \<Rightarrow> bool" where
  "np_lt (Fin a) (Fin b) = (a < b)"
| "np_lt NaN _ = False"
| "np_lt _ NaN = False"
| "np_lt _ NInf = False"
| "np_lt PInf _ = False"
| "np_lt NInf _ = True"
| "np_lt _ PInf = True"

fun np_le :: "npfloat \<Rightarrow> npfloat \<Rightarrow> bool" where
  "np_le (Fin a) (Fin b) = (a \<le> b)"
| "np_le NaN _ = False"
| "np_le _ NaN = False"
| "np_le NInf _ = True"
| "np_le _ PInf = True"
| "np_le PInf _ = False"
| "np_le _ NInf = False"

definition np_gt :: "npfloat \<Rightarrow> npfloat \<Rightarrow> bool" where
  "np_gt a b = np_lt b a"

section \<open>Array reductions\<close>

datatype error = ValueError | IndexError

text \<open>\<open>np.maximum\<close> and \<open>np.minimum\<close> of two values: NaN wins.\<close>

definition np_maximum :: "npfloat \<Rightarrow> npfloat \<Rightarrow> npfloat" where
  "np_maximum a b = (if a = NaN \<or> b = NaN then NaN else if np_le a b then b else a)"

definition np_minimum :: "npfloat \<Rightarrow> npfloat \<Rightarrow> npfloat" where
  "np_minimum a b = (if a = NaN \<or> b = NaN then NaN else if np_le a b then a else b)"

text \<open>
  \<open>ndarray.ptp()\<close>, the maximum minus the minimum. The two reductions have no identity:
  on an array of size zero numpy raises \<open>ValueError\<close>.
\<close>

fun ptp :: "npfloat list \<Rightarrow> error + npfloat" where
  "ptp [] = Inl ValueError"
| "ptp (v # vs) = Inr (np_sub (foldl np_maximum v vs) (foldl np_minimum v vs))"

text \<open>
  \<open>ndarray.mean()\<close>: the sum divided by the number of elements. On an empty array this
  is \<open>0 / 0\<close>, so numpy returns NaN (with a warning).
\<close>

definition np_sum :: "npfloat list \<Rightarrow> npfloat" where
  "np_sum vs = foldr np_add vs (Fin 0)"

definition mean :: "npfloat list \<Rightarrow> npfloat" where
  "mean vs = np_div (np_sum vs) (Fin (real (length vs)))"

text \<open>
  \<open>np.median\<close>: NaN when the array holds a NaN or is empty; otherwise the array is
  sorted and the result is the mean of the middle element (odd length) or of the two
  middle elements (even length).
\<close>

fun np_insort :: "npfloat \<Rightarrow> npfloat list \<Rightarrow> npfloat list" where
  "np_insort v [] = [v]"
| "np_insort v (w # ws) = (if np_le v w then v # w # ws else w # np_insort v ws)"

definition np_sort :: "npfloat list \<Rightarrow> npfloat list" where
  "np_sort vs = foldr np_insort vs []"

definition median :: "npfloat list \<Rightarrow> npfloat" where
  "median vs =
     (if vs = [] \<or> NaN \<in> set vs then NaN
      else let s = np_sort vs; n = length s
           in if odd n then s ! (n div 2)
              else np_div (np_add (s ! (n div 2 - 1)) (s ! (n div 2))) (Fin 2))"

section \<open>Outlier correction\<close>

text \<open>
  \<^verbatim>\<open>
  def correct(vols, TOL=0.1):
      ptp = vols.ptp()
      if ptp > TOL:
          print('Type 3 error occured!')
          good_datas = abs(vols - np.median(vols)) < TOL
          voltage = vols[good_datas].mean()
      else:
          voltage = vols.mean()
      return voltage
  \<close>
\<close>

definition good_datas :: "npfloat list \<Rightarrow> npfloat \<Rightarrow> npfloat \<Rightarrow> bool" where
  "good_datas vols TOL v = np_lt (np_abs (np_sub v (median vols))) TOL"

definition correct :: "npfloat list \<Rightarrow> npfloat \<Rightarrow> error + npfloat" where
  "correct vols TOL =
     (case ptp vols of
        Inl e \<Rightarrow> Inl e
      | Inr p \<Rightarrow>
          if np_gt p TOL then Inr (mean (filter (good_datas vols TOL) vols))
          else Inr (mean vols))"


section \<open>Unit conversion\<close>

text \<open>
  \<^verbatim>\<open>
  def T(R):
      A = 3.354016E-03
      B = 2.460382E-04
      C = 3.405377E-06
      D = 1.034240E-07
      R25 = 1E+05
      hlp = np.log(R/R25)
      TK = 1 / (A + B * hlp + C * hlp ** 2 + D * hlp ** 3)
      TC = TK - 273.15
      return TC
  \<close>
\<close>

definition T :: "npfloat \<Rightarrow> npfloat" where
  "T R =
     (let A = Fin 0.003354016;
          B = Fin 0.0002460382;
          C = Fin 0.000003405377;
          D = Fin 0.0000001034240;
          R25 = Fin 100000;
          hlp = np_log (np_div R R25);
          TK = np_div (Fin 1)
                 (np_add (np_add (np_add A (np_mul B hlp)) (np_mul C (np_pow hlp 2)))
                    (np_mul D (np_pow hlp 3)));
          TC = np_sub TK (Fin 273.15)
      in TC)"

text \<open>
  \<^verbatim>\<open>
  def convert(v_room, v_cryo, v_ICR, v_ICH):
      R0_ICR = 1E+05
      R0_ICH = 1E+05
      V_s = 3.3
      p_room = 10 ** (v_room * 3 - 10)
      p_cryo = 10 ** (v_cryo * 3 - 10)
      R_ICR = v_ICR / (V_s - v_ICR) * R0_ICR
      R_ICH = v_ICH / (V_s - v_ICH) * R0_ICH
      T_ICR = T(R_ICR)
      T_ICH = T(R_ICH)
      return p_room, p_cryo, T_ICR, T_ICH
  \<close>
  The program calls \<open>convert\<close> on the results of \<open>correct\<close>, which are numpy
  \<open>float64\<close> scalars. No operation of \<open>convert\<close> or \<open>T\<close> raises on such operands,
  and neither function has a \<open>raise\<close> or a check of its own: every path returns the
  quadruple.
\<close>

type_synonym reading = "npfloat \<times> npfloat \<times> npfloat \<times> npfloat"

definition convert :: "npfloat \<Rightarrow> npfloat \<Rightarrow> npfloat \<Rightarrow> npfloat \<Rightarrow> error + reading" where
  "convert v_room v_cryo v_ICR v_ICH =
     (let R0_ICR = Fin 100000;
          R0_ICH = Fin 100000;
          V_s = Fin 3.3;
          p_room = np_exp10 (np_sub (np_mul v_room (Fin 3)) (Fin 10));
          p_cryo = np_exp10 (np_sub (np_mul v_cryo (Fin 3)) (Fin 10));
          R_ICR = np_mul (np_div v_ICR (np_sub V_s v_ICR)) R0_ICR;
          R_ICH = np_mul (np_div v_ICH (np_sub V_s v_ICH)) R0_ICH;
          T_ICR = T R_ICR;
          T_ICH = T R_ICH
      in Inr (p_room, p_cryo, T_ICR, T_ICH))"

text \<open>
  The formulas as the specification words them, on real numbers: the log-linear
  pressure calibration, the voltage divider and the Steinhart-Hart equation.
\<close>

definition pressure_spec :: "real \<Rightarrow> real" where
  "pressure_spec v = 10 powr (3 * v - 10)"

definition resistance_spec :: "real \<Rightarrow> real" where
  "resistance_spec v = v / (3.3 - v) * 100000"

definition steinhart_hart_denominator :: "real \<Rightarrow> real" where
  "steinhart_hart_denominator x =
     0.003354016 + 0.0002460382 * x + 0.000003405377 * x\<^sup>2 + 0.0000001034240 * x ^ 3"

definition temperature_spec :: "real \<Rightarrow> real" where
  "temperature_spec v =
     (let R = resistance_spec v; x = ln (R / 100000)
      in 1 / steinhart_hart_denominator x - 273.15)"

text \<open>
  The same formulas in the float operations of the program, so that they can be applied
  to every float: the operands in the order the specification writes them.
\<close>

definition pressure_np :: "npfloat \<Rightarrow> npfloat" where
  "pressure_np v = np_exp10 (np_sub (np_mul (Fin 3) v) (Fin 10))"

definition temperature_np :: "npfloat \<Rightarrow> npfloat" where
  "temperature_np v =
     (let R = np_mul (np_div v (np_sub (Fin 3.3) v)) (Fin 100000);
          x = np_log (np_div R (Fin 100000));
          T_K = np_div (Fin 1)
                  (np_add (np_add (np_add (Fin 0.003354016) (np_mul (Fin 0.0002460382) x))
                             (np_mul (Fin 0.000003405377) (np_pow x 2)))
                     (np_mul (Fin 0.0000001034240) (np_pow x 3)))
      in np_sub T_K (Fin 273.15))"

section \<open>Parsing a float\<close>

text \<open>
  Python's \<open>float(s)\<close> on a string: surrounding whitespace is dropped, an underscore
  may stand between two digits, and what remains is an optional sign followed by
  \<open>inf\<close>, \<open>infinity\<close> or \<open>nan\<close> (in any case) or by a decimal numeral with an
  optional exponent. Anything else raises \<open>ValueError\<close>. Text is a list of 8-bit
  characters (code points below 256); the value of a numeral is its exact decimal
  value. The whitespace \<open>float\<close> drops is tab, line feed, vertical tab, form feed,
  carriage return and space, and of the code points above ASCII the next-line control
  and the no-break space.
\<close>

definition is_space :: "char \<Rightarrow> bool" where
  "is_space c =
     (let n = (of_char c :: nat)
      in (9 \<le> n \<and> n \<le> 13) \<or> n = 32 \<or> n = 133 \<or> n = 160)"

definition is_digit :: "char \<Rightarrow> bool" where
  "is_digit c = (let n = (of_char c :: nat) in 48 \<le> n \<and> n \<le> 57)"

definition digit_val :: "char \<Rightarrow> nat" where
  "digit_val c = of_char c - 48"

definition digits_val :: "string \<Rightarrow> nat" where
  "digits_val ds = foldl (\<lambda>a c. 10 * a + digit_val c) 0 ds"

definition strip :: "string \<Rightarrow> string" where
  "strip s = rev (dropWhile is_space (rev (dropWhile is_space s)))"

text \<open>An underscore needs a digit before it and a digit after it.\<close>

fun underscores_ok :: "char \<Rightarrow> string \<Rightarrow> bool" where
  "underscores_ok prev [] = (prev \<noteq> CHR ''_'')"
| "underscores_ok prev (c # cs) =
     ((if c = CHR ''_'' then is_digit prev else prev \<noteq> CHR ''_'' \<or> is_digit c)
      \<and> underscores_ok c cs)"

definition lower :: "char \<Rightarrow> char" where
  "lower c =
     (let n = (of_char c :: nat) in if 65 \<le> n \<and> n \<le> 90 then char_of (n + 32) else c)"

text \<open>
  A decimal numeral: digits with an optional point, at least one digit in all, then an
  optional exponent of at least one digit.
\<close>

definition parse_exponent :: "string \<Rightarrow> int option" where
  "parse_exponent s =
     (let (negative, ds) =
            (case s of
               c # cs \<Rightarrow> if c = CHR ''-'' then (True, cs)
                         else if c = CHR ''+'' then (False, cs) else (False, s)
             | [] \<Rightarrow> (False, s))
      in if ds \<noteq> [] \<and> list_all is_digit ds
         then Some (if negative then - int (digits_val ds) else int (digits_val ds))
         else None)"

definition parse_decimal :: "string \<Rightarrow> real option" where
  "parse_decimal s =
     (let ip = takeWhile is_digit s;
          r1 = dropWhile is_digit s;
          has_point = (r1 \<noteq> [] \<and> hd r1 = CHR ''.'');
          fp = (if has_point then takeWhile is_digit (tl r1) else []);
          r2 = (if has_point then dropWhile is_digit (tl r1) else r1);
          mantissa = real (digits_val (ip @ fp)) / 10 ^ length fp
      in if ip = [] \<and> fp = [] then None
         else if r2 = [] then Some mantissa
         else if hd r2 = CHR ''e'' \<or> hd r2 = CHR ''E''
         then (case parse_exponent (tl r2) of
                 None \<Rightarrow> None
               | Some e \<Rightarrow> Some (if e < 0 then mantissa / 10 ^ nat (- e)
                                  else mantissa * 10 ^ nat e))
         else None)"

definition py_float :: "string \<Rightarrow> error + npfloat" where
  "py_float s =
     (if \<not> underscores_ok (CHR 0x00) s then Inl ValueError
      else
        let t = strip (filter (\<lambda>c. c \<noteq> CHR ''_'') s);
            negative = (t \<noteq> [] \<and> hd t = CHR ''-'');
            signed = (t \<noteq> [] \<and> (hd t = CHR ''-'' \<or> hd t = CHR ''+''));
            body = (if signed then tl t else t);
            word = map lower body
        in if word = ''inf'' \<or> word = ''infinity'' then Inr (if negative then NInf else PInf)
           else if word = ''nan'' then Inr NaN
           else (case parse_decimal body of
                   None \<Rightarrow> Inl ValueError
                 | Some x \<Rightarrow> Inr (Fin (if negative then - x else x))))"

section \<open>Frame extraction\<close>

text \<open>
  Indexing a string past its end raises \<open>IndexError\<close>; a slice never raises, it is
  cut at the end of the string.
\<close>

definition py_index :: "string \<Rightarrow> nat \<Rightarrow> error + char" where
  "py_index s i = (if i < length s then Inr (s ! i) else Inl IndexError)"

definition py_slice :: "string \<Rightarrow> nat \<Rightarrow> nat \<Rightarrow> string" where
  "py_slice s a b = take (b - a) (drop a s)"

text \<open>
  \<^verbatim>\<open>
  def get_voltages():
      converted = False
      while not converted:
          hlp = read_series()
          for i, char in enumerate(hlp):
              try:
                  if (char == '\n') and (hlp[i+1] == '4'):
                      voltage_room = float(hlp[i+2:i+6])
                      voltage_cryo = float(hlp[i+9:i+13])
                      voltage_ICR = float(hlp[i+16:i+20])
                      voltage_ICH = float(hlp[i+23:i+27])
                      converted = True
                      break
              except:
                  print('Type 2 error occured!')
                  break
      return voltage_room, voltage_cryo, voltage_ICR, voltage_ICH
  \<close>
  \<open>try_frame\<close> is the body of the \<open>try\<close> at position \<open>i\<close>: \<open>Inl\<close> an exception,
  \<open>Inr None\<close> when the condition is false, \<open>Inr (Some q)\<close> when the four values were
  assigned. \<open>scan_from\<close> is the \<open>for\<close> loop from position \<open>i\<close> on: an exception and a
  converted frame both leave the loop, \<open>None\<close> says that \<open>converted\<close> stayed false.
\<close>

definition try_frame :: "string \<Rightarrow> nat \<Rightarrow> error + reading option" where
  "try_frame hlp i =
     (if hlp ! i \<noteq> CHR 0x0A then Inr None
      else case py_index hlp (i + 1) of
        Inl e \<Rightarrow> Inl e
      | Inr c \<Rightarrow>
          if c \<noteq> CHR ''4'' then Inr None
          else case py_float (py_slice hlp (i + 2) (i + 6)) of
            Inl e \<Rightarrow> Inl e
          | Inr voltage_room \<Rightarrow>
              case py_float (py_slice hlp (i + 9) (i + 13)) of
                Inl e \<Rightarrow> Inl e
              | Inr voltage_cryo \<Rightarrow>
                  case py_float (py_slice hlp (i + 16) (i + 20)) of
                    Inl e \<Rightarrow> Inl e
                  | Inr voltage_ICR \<Rightarrow>
                      case py_float (py_slice hlp (i + 23) (i + 27)) of
                        Inl e \<Rightarrow> Inl e
                      | Inr voltage_ICH \<Rightarrow>
                          Inr (Some (voltage_room, voltage_cryo, voltage_ICR, voltage_ICH)))"

function scan_from :: "string \<Rightarrow> nat \<Rightarrow> reading option" where
  "scan_from hlp i =
     (if length hlp \<le> i then None
      else case try_frame hlp i of
        Inl e \<Rightarrow> None
      | Inr (Some q) \<Rightarrow> Some q
      | Inr None \<Rightarrow> scan_from hlp (i + 1))"
  by pat_completeness auto
termination
  by (relation "measure (\<lambda>(hlp, i). length hlp - i)") auto

declare scan_from.simps [simp del]

text \<open>
  \<^verbatim>\<open>
  def read_series(cycle=7):
      while True:
          hlp = ser.read(8*cycle)
          try:
              hlp = hlp.decode()
              break
          except:
              print('Type 1 error occured!')
              continue
      return hlp
  \<close>
  The serial port is the list of the chunks it will deliver, each one either bytes
  that do not decode or the text they decode to. Reading takes the first chunk off the
  list. \<open>None\<close> says that the list ran out while the loop was still reading; the
  same holds for the \<open>while\<close> loop of \<open>get_voltages\<close>, which reads a fresh chunk
  on every round.
\<close>

datatype chunk = Undecodable | Decoded string

fun read_series :: "chunk list \<Rightarrow> (string \<times> chunk list) option" where
  "read_series [] = None"
| "read_series (Undecodable # ser) = read_series ser"
| "read_series (Decoded hlp # ser) = Some (hlp, ser)"

lemma read_series_shorter:
  "read_series ser = Some (hlp, ser') \<Longrightarrow> length ser' < length ser"
  by (induction ser rule: read_series.induct) auto

function get_voltages :: "chunk list \<Rightarrow> (reading \<times> chunk list) option" where
  "get_voltages ser =
     (case read_series ser of
        None \<Rightarrow> None
      | Some (hlp, ser') \<Rightarrow>
          (case scan_from hlp 0 of
             Some q \<Rightarrow> Some (q, ser')
           | None \<Rightarrow> get_voltages ser'))"
  by pat_completeness auto
termination
  by (relation "measure length") (auto dest: read_series_shorter)

declare get_voltages.simps [simp del]

text \<open>
  A frame marker stands at position \<open>i\<close>: a newline immediately followed by the
  digit \<open>4\<close>.
\<close>

definition marker_at :: "string \<Rightarrow> nat \<Rightarrow> bool" where
  "marker_at hlp i = (i + 1 < length hlp \<and> hlp ! i = CHR 0x0A \<and> hlp ! (i + 1) = CHR ''4'')"

section \<open>The logging loop\<close>

text \<open>
  \<^verbatim>\<open>
  path_rough = 'Z:\\Logs\\1041_Dewar_Foreline\\'
  path_room = 'Z:\\Logs\\1041_Chamber_Pressure\\'
  path_cryo = 'Z:\\Logs\\1041_Dewar_Pressure\\'
  path_temp = 'Z:\\Logs\\1041_Chilled_Water\\'
  \<close>
\<close>

definition backslash :: string where
  "backslash = [CHR 0x5C]"

definition path_rough :: string where
  "path_rough = ''Z:'' @ backslash @ ''Logs'' @ backslash @ ''1041_Dewar_Foreline'' @ backslash"

definition path_room :: string where
  "path_room = ''Z:'' @ backslash @ ''Logs'' @ backslash @ ''1041_Chamber_Pressure'' @ backslash"

definition path_cryo :: string where
  "path_cryo = ''Z:'' @ backslash @ ''Logs'' @ backslash @ ''1041_Dewar_Pressure'' @ backslash"

definition path_temp :: string where
  "path_temp = ''Z:'' @ backslash @ ''Logs'' @ backslash @ ''1041_Chilled_Water'' @ backslash"

text \<open>The names of the four log files of a date, in the order the program opens them.\<close>

definition name_room :: "string \<Rightarrow> string" where
  "name_room date = path_room @ date @ ''_chamber.log''"

definition name_cryo :: "string \<Rightarrow> string" where
  "name_cryo date = path_cryo @ date @ ''_dewar.log''"

definition name_rough :: "string \<Rightarrow> string" where
  "name_rough date = path_rough @ date @ ''_foreline.log''"

definition name_temp :: "string \<Rightarrow> string" where
  "name_temp date = path_temp @ date @ ''_temperature.log''"

definition log_names :: "string \<Rightarrow> string list" where
  "log_names date = [name_room date, name_cryo date, name_rough date, name_temp date]"

text \<open>
  What the loop does to the file system, in program order: a file is opened for
  appending, a line is written to an open file, a file is closed.
\<close>

datatype event = Opened string | Wrote string string | Closed string

text \<open>
  The rotation state: the date the open files are named after, the four open files
  (each by the name it was opened under), and the events so far.
\<close>

record rotation_state =
  current_date :: string
  file_room :: string
  file_cryo :: string
  file_rough :: string
  file_temp :: string
  trace :: "event list"

text \<open>
  Entering the \<open>with\<close> statement opens the four files named after \<open>current_date\<close>;
  leaving it closes them, the last one opened first.
\<close>

definition open_files :: "rotation_state \<Rightarrow> rotation_state" where
  "open_files s =
     s\<lparr>file_room := name_room (current_date s),
       file_cryo := name_cryo (current_date s),
       file_rough := name_rough (current_date s),
       file_temp := name_temp (current_date s),
       trace := trace s @ map Opened (log_names (current_date s))\<rparr>"









text \<open>The program up to its first inner iteration, started on a date.\<close>

definition start :: "string \<Rightarrow> rotation_state" where
  "start date =
     open_files \<lparr>current_date = date, file_room = [], file_cryo = [], file_rough = [],
                 file_temp = [], trace = []\<rparr>"








section \<open>Properties of the outlier correction\<close>

subsection \<open>Special values\<close>

lemma np_lt_NaN_right [simp]: "np_lt a NaN = False"
  by (cases a) simp_all

lemma np_le_NaN_right [simp]: "np_le a NaN = False"
  by (cases a) simp_all

lemma np_le_PInf [simp]: "np_le a PInf = (a \<noteq> NaN)"
  by (cases a) simp_all

lemma np_le_NInf_left [simp]: "np_le NInf a = (a \<noteq> NaN)"
  by (cases a) simp_all

lemma np_lt_PInf_left [simp]: "np_lt PInf a = False"
  by (cases a) simp_all


















subsection \<open>Finite samples\<close>










lemma mean_Nil: "mean [] = NaN"
  by (simp add: mean_def np_sum_def)






subsection \<open>One outlier among consistent values\<close>







subsection \<open>The claims on the outlier correction\<close>



text \<open>
  Claim C2 says that \<open>correct\<close> fails with an explicit error when the range exceeds the
  tolerance and no value is kept. On four samples \<open>1, 1, 2, 2\<close> with the default
  tolerance the range is \<open>1\<close>, the median is \<open>1.5\<close>, every value deviates from it by
  \<open>0.5\<close>, nothing is kept, and \<open>correct\<close> returns NaN as an ordinary result.
\<close>

theorem correct_empty_selection_counterexample:
  "ptp [Fin 1, Fin 1, Fin 2, Fin 2] = Inr (Fin 1) \<and> np_gt (Fin 1) (Fin 0.1) \<and>
   median [Fin 1, Fin 1, Fin 2, Fin 2] = Fin 1.5 \<and>
   filter (good_datas [Fin 1, Fin 1, Fin 2, Fin 2] (Fin 0.1)) [Fin 1, Fin 1, Fin 2, Fin 2] = [] \<and>
   correct [Fin 1, Fin 1, Fin 2, Fin 2] (Fin 0.1) = Inr NaN"
  by (simp add: correct_def good_datas_def median_def np_sort_def mean_def np_sum_def
      np_gt_def np_sub_def np_maximum_def np_minimum_def)

text \<open>
  Claim C2 as the code has it: whenever the range exceeds the tolerance and no value is
  kept, \<open>correct\<close> raises nothing and returns NaN, the mean numpy gives for an empty
  selection.
\<close>

theorem correct_empty_selection_returns_NaN:
  assumes "ptp vols = Inr p" and "np_gt p TOL"
    and "filter (good_datas vols TOL) vols = []"
  shows "correct vols TOL = Inr NaN"
  using assms by (simp add: correct_def mean_Nil)

text \<open>
  Two samples one volt apart, tolerance one half.
\<close>

theorem correct_empty_selection_returns_NaN_witness:
  "correct [Fin 0, Fin 1] (Fin 0.5) = Inr NaN"
proof (rule correct_empty_selection_returns_NaN)
  show "ptp [Fin 0, Fin 1] = Inr (Fin 1)"
    by (simp add: np_sub_def np_maximum_def np_minimum_def)
  show "np_gt (Fin 1) (Fin 0.5)" by (simp add: np_gt_def)
  show "filter (good_datas [Fin 0, Fin 1] (Fin 0.5)) [Fin 0, Fin 1] = []"
    by (simp add: good_datas_def median_def np_sort_def np_sub_def)
qed






section \<open>Properties of the unit conversion\<close>

lemma np_mul_commute: "np_mul a b = np_mul b a"
  by (cases a; cases b) (simp_all add: mult.commute)

lemma convert_np:
  "convert v_room v_cryo v_ICR v_ICH =
     Inr (pressure_np v_room, pressure_np v_cryo, temperature_np v_ICR, temperature_np v_ICH)"
  by (simp add: convert_def T_def pressure_np_def temperature_np_def Let_def
      np_mul_commute [of _ "Fin 3"])

lemma pressure_np_Fin: "pressure_np (Fin v) = Fin (pressure_spec v)"
  by (simp add: pressure_np_def pressure_spec_def np_sub_def)

lemma resistance_Fin:
  "v \<noteq> 3.3 \<Longrightarrow>
   np_mul (np_div (Fin v) (np_sub (Fin 3.3) (Fin v))) (Fin 100000) = Fin (resistance_spec v)"
  by (simp add: np_sub_def resistance_spec_def)

lemma resistance_spec_pos: "0 < v \<Longrightarrow> v < 3.3 \<Longrightarrow> 0 < resistance_spec v"
  by (simp add: resistance_spec_def)

lemma T_Fin:
  assumes "0 < R" and "steinhart_hart_denominator (ln (R / 100000)) \<noteq> 0"
  shows "T (Fin R) = Fin (1 / steinhart_hart_denominator (ln (R / 100000)) - 273.15)"
proof -
  let ?x = "ln (R / 100000)"
  have hlp: "np_log (np_div (Fin R) (Fin 100000)) = Fin ?x" using assms(1) by simp
  have den: "np_add (np_add (np_add (Fin 0.003354016) (np_mul (Fin 0.0002460382) (Fin ?x)))
                 (np_mul (Fin 0.000003405377) (np_pow (Fin ?x) 2)))
               (np_mul (Fin 0.0000001034240) (np_pow (Fin ?x) 3))
             = Fin (steinhart_hart_denominator ?x)"
    by (simp add: steinhart_hart_denominator_def)
  show ?thesis
    unfolding T_def Let_def hlp den using assms(2) by (simp add: np_sub_def)
qed

lemma temperature_np_Fin:
  assumes "0 < v" and "v < 3.3"
    and "steinhart_hart_denominator (ln (resistance_spec v / 100000)) \<noteq> 0"
  shows "temperature_np (Fin v) = Fin (temperature_spec v)"
proof -
  have "temperature_np (Fin v) = T (np_mul (np_div (Fin v) (np_sub (Fin 3.3) (Fin v))) (Fin 100000))"
    by (simp add: temperature_np_def T_def Let_def)
  also have "\<dots> = T (Fin (resistance_spec v))" using assms(2) by (simp add: resistance_Fin)
  also have "\<dots> = Fin (temperature_spec v)"
    using T_Fin [OF resistance_spec_pos [OF assms(1,2)] assms(3)]
    by (simp add: temperature_spec_def Let_def)
  finally show ?thesis .
qed

lemma steinhart_hart_denominator_pos:
  assumes "0 \<le> x"
  shows "0 < steinhart_hart_denominator x"
  unfolding steinhart_hart_denominator_def
  by (intro add_pos_nonneg) (use assms in simp_all)



lemma T_negative: "R < 0 \<Longrightarrow> T (Fin R) = NaN"
  by (simp add: T_def Let_def np_sub_def)

lemma T_zero: "T (Fin 0) = NaN"
  by (simp add: T_def Let_def np_sub_def signed_inf_def)

lemma T_PInf: "T PInf = Fin (- 273.15)"
  by (simp add: T_def Let_def np_sub_def signed_inf_def)

lemma T_NaN: "T NaN = NaN"
  by (simp add: T_def Let_def np_sub_def)

lemma temperature_np_T:
  "temperature_np v = T (np_mul (np_div v (np_sub (Fin 3.3) v)) (Fin 100000))"
  by (simp add: temperature_np_def T_def Let_def)

lemma temperature_np_outside:
  "v \<le> 0 \<or> 3.3 < v \<Longrightarrow> temperature_np (Fin v) = NaN"
proof -
  assume a: "v \<le> 0 \<or> 3.3 < v"
  then have "v \<noteq> 3.3" by auto
  then have eq: "temperature_np (Fin v) = T (Fin (resistance_spec v))"
    by (simp add: temperature_np_T resistance_Fin)
  show ?thesis
  proof (cases "v = 0")
    case True
    then show ?thesis using eq by (simp add: resistance_spec_def T_zero)
  next
    case False
    with a have "v / (3.3 - v) < 0" by (auto simp: divide_less_0_iff)
    then have "v / (3.3 - v) * 100000 < 0" by (rule mult_neg_pos) simp
    then have "resistance_spec v < 0" unfolding resistance_spec_def .
    then show ?thesis using eq by (simp add: T_negative)
  qed
qed

lemma temperature_np_supply: "temperature_np (Fin 3.3) = Fin (- 273.15)"
  by (simp add: temperature_np_T np_sub_def signed_inf_def T_PInf)

lemma temperature_np_special:
  "temperature_np NaN = NaN" "temperature_np PInf = NaN" "temperature_np NInf = NaN"
  by (simp_all add: temperature_np_T np_sub_def T_NaN)

text \<open>
  Claim C4 says that \<open>convert\<close> fails with an error on an input that produces NaN or
  an infinity. With \<open>v_ICR = 4\<close> the derived resistance is negative, its logarithm is NaN,
  and \<open>convert\<close> returns NaN as the temperature; with \<open>v_ICH = 3.3\<close> the divider divides
  by zero, the resistance is infinite, and \<open>convert\<close> returns \<open>-273.15\<close>. Both come back
  in an ordinary result.
\<close>

theorem convert_silent_NaN_counterexample:
  "convert (Fin 1) (Fin 1) (Fin 4) (Fin 3.3) =
     Inr (Fin (10 powr - 7), Fin (10 powr - 7), NaN, Fin (- 273.15))"
  by (simp add: convert_np pressure_np_Fin pressure_spec_def temperature_np_outside
      temperature_np_supply)

text \<open>
  Claim C4 as the code has it: \<open>convert\<close> raises on no input, it always returns a
  quadruple. A thermistor voltage that is not above zero, that exceeds the supply
  voltage, or that is NaN or infinite, gives NaN as its temperature; the supply voltage
  itself gives \<open>-273.15\<close>.
\<close>

theorem convert_never_raises:
  "\<exists>p_room p_cryo T_ICR T_ICH.
     convert v_room v_cryo v_ICR v_ICH = Inr (p_room, p_cryo, T_ICR, T_ICH) \<and>
     ((\<exists>v. v_ICR = Fin v \<and> (v \<le> 0 \<or> 3.3 < v)) \<or> v_ICR \<in> {NaN, PInf, NInf} \<longrightarrow> T_ICR = NaN) \<and>
     (v_ICR = Fin 3.3 \<longrightarrow> T_ICR = Fin (- 273.15)) \<and>
     ((\<exists>v. v_ICH = Fin v \<and> (v \<le> 0 \<or> 3.3 < v)) \<or> v_ICH \<in> {NaN, PInf, NInf} \<longrightarrow> T_ICH = NaN) \<and>
     (v_ICH = Fin 3.3 \<longrightarrow> T_ICH = Fin (- 273.15))"
proof -
  have out: "temperature_np w = NaN"
    if "(\<exists>v. w = Fin v \<and> (v \<le> 0 \<or> 3.3 < v)) \<or> w \<in> {NaN, PInf, NInf}" for w
    using that temperature_np_outside temperature_np_special by auto
  have sup: "temperature_np w = Fin (- 273.15)" if "w = Fin 3.3" for w
    using that temperature_np_supply by simp
  show ?thesis
    unfolding convert_np using out [of v_ICR] out [of v_ICH] sup [of v_ICR] sup [of v_ICH]
    by blast
qed

text \<open>
  The input of the counterexample.
\<close>

theorem convert_never_raises_witness:
  "\<exists>p_room p_cryo. convert (Fin 1) (Fin 1) (Fin 4) (Fin 3.3) =
     Inr (p_room, p_cryo, NaN, Fin (- 273.15))"
proof -
  have "(4::real) \<le> 0 \<or> 3.3 < (4::real)" by simp
  then have "(\<exists>v. Fin 4 = Fin v \<and> (v \<le> 0 \<or> 3.3 < v)) \<or> Fin 4 \<in> {NaN, PInf, NInf}"
    by blast
  then show ?thesis
    using convert_never_raises [of "Fin 1" "Fin 1" "Fin 4" "Fin 3.3"] by metis
qed

lemma reference_temperature: "25 < (1 / 0.003354016 - 273.15 :: real)"
  "\<bar>(1 / 0.003354016 - 273.15 :: real) - 25\<bar> < 0.0001"
  by simp_all

lemma sqrt_10_bounds: "3.162 < sqrt 10" "sqrt 10 < 3.163"
proof -
  show "3.162 < sqrt 10" by (rule real_less_rsqrt) (simp add: power2_eq_square)
  show "sqrt 10 < 3.163" by (rule real_less_lsqrt) (simp_all add: power2_eq_square)
qed

lemma pressure_spec_three_and_a_half: "pressure_spec 3.5 = sqrt 10"
proof -
  have "pressure_spec 3.5 = 10 powr (1 / 2)" by (simp add: pressure_spec_def)
  then show ?thesis by (simp add: powr_half_sqrt)
qed

lemma resistance_spec_reference: "resistance_spec v = 100000 \<longleftrightarrow> v = 1.65"
proof
  assume r: "resistance_spec v = 100000"
  have "v / (3.3 - v) = v / (3.3 - v) * 100000 / 100000"
    by (rule nonzero_mult_div_cancel_right [symmetric]) simp
  also have "\<dots> = 1" by (simp only: r [unfolded resistance_spec_def] divide_self_if) simp
  finally have q: "v / (3.3 - v) = 1" .
  then have "3.3 - v \<noteq> 0" by auto
  with q have "v = 3.3 - v" by (simp add: field_simps)
  then show "v = 1.65" by simp
next
  assume v: "v = 1.65"
  show "resistance_spec v = 100000" unfolding v by (simp add: resistance_spec_def)
qed

lemma temperature_spec_reference: "temperature_spec 1.65 = 1 / 0.003354016 - 273.15"
proof -
  have "ln (resistance_spec 1.65 / 100000) = 0" by (simp add: resistance_spec_def)
  then show ?thesis by (simp add: temperature_spec_def steinhart_hart_denominator_def)
qed

lemma temperature_np_reference: "temperature_np (Fin 1.65) = Fin (1 / 0.003354016 - 273.15)"
proof -
  have x: "ln (resistance_spec 1.65 / 100000) = 0" by (simp add: resistance_spec_def)
  have "steinhart_hart_denominator (ln (resistance_spec 1.65 / 100000)) \<noteq> 0"
    unfolding x using steinhart_hart_denominator_pos [of 0] by simp
  then have "temperature_np (Fin 1.65) = Fin (temperature_spec 1.65)"
    by (intro temperature_np_Fin) simp_all
  then show ?thesis by (simp only: temperature_spec_reference)
qed

text \<open>
  Claim C7 says that at the reference resistance the temperature is about \<open>-25.0\<close>
  degrees. The voltage \<open>1.65\<close> gives the reference resistance, and there \<open>convert\<close>
  returns \<open>1 / A - 273.15\<close>, which lies above \<open>+25\<close>, at a distance of more than
  \<open>50\<close> from \<open>-25\<close>.
\<close>

theorem convert_reference_point_counterexample:
  "resistance_spec 1.65 = 100000 \<and>
   convert (Fin 3.5) (Fin 3.5) (Fin 1.65) (Fin 1.65) =
     Inr (Fin (sqrt 10), Fin (sqrt 10), Fin (1 / 0.003354016 - 273.15),
          Fin (1 / 0.003354016 - 273.15)) \<and>
   25 < (1 / 0.003354016 - 273.15 :: real) \<and>
   \<not> \<bar>(1 / 0.003354016 - 273.15 :: real) - (- 25)\<bar> < 50"
proof -
  have "convert (Fin 3.5) (Fin 3.5) (Fin 1.65) (Fin 1.65) =
     Inr (Fin (sqrt 10), Fin (sqrt 10), Fin (1 / 0.003354016 - 273.15),
          Fin (1 / 0.003354016 - 273.15))"
    by (simp only: convert_np pressure_np_Fin pressure_spec_three_and_a_half
        temperature_np_reference)
  moreover have "resistance_spec 1.65 = 100000" by (simp add: resistance_spec_reference)
  ultimately show ?thesis using reference_temperature by simp
qed

text \<open>
  Claim C7 with the sign set right: for a voltage whose derived resistance is the
  reference resistance, \<open>convert\<close> returns the temperature \<open>1 / A - 273.15\<close>, within
  \<open>0.0001\<close> of \<open>+25.0\<close>; and for \<open>v_room = 3.5\<close> the pressure \<open>10 powr 0.5\<close>, within
  \<open>0.001\<close> of \<open>3.162\<close>.
\<close>

theorem convert_reference_point:
  assumes "resistance_spec v = 100000"
  shows "\<exists>p_cryo T_ICH.
           convert (Fin 3.5) v_cryo (Fin v) v_ICH =
             Inr (Fin (10 powr (3 * 3.5 - 10)), p_cryo, Fin (1 / 0.003354016 - 273.15), T_ICH) \<and>
           (10 powr (3 * 3.5 - 10) :: real) = 10 powr 0.5 \<and>
           \<bar>(10 powr 0.5 :: real) - 3.162\<bar> < 0.001 \<and>
           \<bar>(1 / 0.003354016 - 273.15 :: real) - 25\<bar> < 0.0001"
proof -
  have v: "v = 1.65" using assms by (simp add: resistance_spec_reference)
  have p: "pressure_np (Fin 3.5) = Fin (10 powr (3 * 3.5 - 10))"
    by (simp only: pressure_np_Fin pressure_spec_def)
  have e: "(10 powr (3 * 3.5 - 10) :: real) = 10 powr 0.5" by simp
  have "(10 powr 0.5 :: real) = sqrt 10" by (simp add: powr_half_sqrt)
  then have b: "\<bar>(10 powr 0.5 :: real) - 3.162\<bar> < 0.001"
    using sqrt_10_bounds by simp
  show ?thesis
    unfolding convert_np v p temperature_np_reference
    using e b reference_temperature(2) by blast
qed

text \<open>
  The voltage \<open>1.65\<close>, half the supply voltage.
\<close>

theorem convert_reference_point_witness:
  "\<exists>p_cryo T_ICH.
     convert (Fin 3.5) (Fin 1) (Fin 1.65) (Fin 1) =
       Inr (Fin (10 powr (3 * 3.5 - 10)), p_cryo, Fin (1 / 0.003354016 - 273.15), T_ICH) \<and>
     (10 powr (3 * 3.5 - 10) :: real) = 10 powr 0.5 \<and>
     \<bar>(10 powr 0.5 :: real) - 3.162\<bar> < 0.001 \<and>
     \<bar>(1 / 0.003354016 - 273.15 :: real) - 25\<bar> < 0.0001"
proof (rule convert_reference_point)
  show "resistance_spec 1.65 = 100000" by (simp add: resistance_spec_def)
qed

section \<open>Properties of the frame extraction\<close>

lemma try_frame_no_marker:
  assumes "\<not> marker_at hlp j" and "j + 1 < length hlp"
  shows "try_frame hlp j = Inr None"
  using assms by (simp add: try_frame_def marker_at_def py_index_def)

lemma try_frame_marker:
  assumes "marker_at hlp i"
  shows "try_frame hlp i =
    (case py_float (py_slice hlp (i + 2) (i + 6)) of
       Inl e \<Rightarrow> Inl e
     | Inr voltage_room \<Rightarrow>
         case py_float (py_slice hlp (i + 9) (i + 13)) of
           Inl e \<Rightarrow> Inl e
         | Inr voltage_cryo \<Rightarrow>
             case py_float (py_slice hlp (i + 16) (i + 20)) of
               Inl e \<Rightarrow> Inl e
             | Inr voltage_ICR \<Rightarrow>
                 case py_float (py_slice hlp (i + 23) (i + 27)) of
                   Inl e \<Rightarrow> Inl e
                 | Inr voltage_ICH \<Rightarrow>
                     Inr (Some (voltage_room, voltage_cryo, voltage_ICR, voltage_ICH)))"
  using assms by (simp add: try_frame_def marker_at_def py_index_def)

lemma scan_from_skip:
  assumes "i < length hlp" and "\<forall>j. k \<le> j \<and> j < i \<longrightarrow> \<not> marker_at hlp j" and "k \<le> i"
  shows "scan_from hlp k = scan_from hlp i"
  using assms
proof (induction "i - k" arbitrary: k)
  case 0
  then show ?case by simp
next
  case (Suc n)
  then have k: "k < i" "k + 1 < length hlp" "\<not> marker_at hlp k" by auto
  then have "try_frame hlp k = Inr None" by (simp add: try_frame_no_marker)
  then have "scan_from hlp k = scan_from hlp (k + 1)"
    using k by (subst scan_from.simps) simp
  also have "\<dots> = scan_from hlp i"
    using Suc by (intro Suc.hyps) auto
  finally show ?case .
qed

lemma scan_from_no_marker:
  assumes "\<forall>j. k \<le> j \<longrightarrow> \<not> marker_at hlp j"
  shows "scan_from hlp k = None"
  using assms
proof (induction hlp k rule: scan_from.induct)
  case (1 hlp i)
  show ?case
  proof (cases "length hlp \<le> i")
    case True
    then show ?thesis by (subst scan_from.simps) simp
  next
    case False
    have nm: "\<not> marker_at hlp i" using 1 by simp
    show ?thesis
    proof (cases "try_frame hlp i")
      case (Inl e)
      then show ?thesis using False by (subst scan_from.simps) simp
    next
      case (Inr r)
      have "r = None"
        using Inr nm False
        by (auto simp: try_frame_def marker_at_def py_index_def split: if_splits sum.splits)
      then have "scan_from hlp i = scan_from hlp (i + 1)"
        using Inr False by (subst scan_from.simps) simp
      also have "\<dots> = None"
        using False Inr \<open>r = None\<close> 1 by (intro "1.IH") auto
      finally show ?thesis .
    qed
  qed
qed

lemma scan_from_marker:
  assumes "marker_at hlp i"
  shows "scan_from hlp i =
    (case try_frame hlp i of Inl e \<Rightarrow> None | Inr None \<Rightarrow> None | Inr (Some q) \<Rightarrow> Some q)"
proof -
  have i: "\<not> length hlp \<le> i" using assms by (simp add: marker_at_def)
  have "try_frame hlp i \<noteq> Inr None"
    using assms by (simp add: try_frame_marker split: sum.splits)
  then show ?thesis
    using i by (subst scan_from.simps) (simp split: sum.splits option.splits)
qed

lemma scan_from_first_marker:
  assumes "marker_at hlp i" and "\<forall>j<i. \<not> marker_at hlp j"
  shows "scan_from hlp 0 =
    (case try_frame hlp i of Inl e \<Rightarrow> None | Inr None \<Rightarrow> None | Inr (Some q) \<Rightarrow> Some q)"
proof -
  have "i < length hlp" using assms(1) by (simp add: marker_at_def)
  then have "scan_from hlp 0 = scan_from hlp i"
    using assms(2) by (intro scan_from_skip) auto
  then show ?thesis using assms(1) by (simp add: scan_from_marker)
qed

lemma scan_from_frame:
  assumes "marker_at hlp i" and "\<forall>j<i. \<not> marker_at hlp j"
    and "py_float (py_slice hlp (i + 2) (i + 6)) = Inr voltage_room"
    and "py_float (py_slice hlp (i + 9) (i + 13)) = Inr voltage_cryo"
    and "py_float (py_slice hlp (i + 16) (i + 20)) = Inr voltage_ICR"
    and "py_float (py_slice hlp (i + 23) (i + 27)) = Inr voltage_ICH"
  shows "scan_from hlp 0 = Some (voltage_room, voltage_cryo, voltage_ICR, voltage_ICH)"
  using assms by (simp add: scan_from_first_marker try_frame_marker)

lemma scan_from_bad_field:
  assumes "marker_at hlp i" and "\<forall>j<i. \<not> marker_at hlp j"
    and "py_float (py_slice hlp (i + 2) (i + 6)) = Inl e \<or>
         py_float (py_slice hlp (i + 9) (i + 13)) = Inl e \<or>
         py_float (py_slice hlp (i + 16) (i + 20)) = Inl e \<or>
         py_float (py_slice hlp (i + 23) (i + 27)) = Inl e"
  shows "scan_from hlp 0 = None"
  using assms by (auto simp: scan_from_first_marker try_frame_marker split: sum.splits)

lemma get_voltages_found:
  "read_series ser = Some (hlp, ser') \<Longrightarrow> scan_from hlp 0 = Some q \<Longrightarrow>
   get_voltages ser = Some (q, ser')"
  by (subst get_voltages.simps) simp

lemma get_voltages_retry:
  "read_series ser = Some (hlp, ser') \<Longrightarrow> scan_from hlp 0 = None \<Longrightarrow>
   get_voltages ser = get_voltages ser'"
  by (subst get_voltages.simps) simp

lemmas py_float_eval = py_float_def parse_decimal_def parse_exponent_def strip_def is_space_def
  is_digit_def digit_val_def digits_val_def lower_def Let_def

lemma read_series_mem:
  "read_series ser = Some (hlp, ser') \<Longrightarrow> Decoded hlp \<in> set ser \<and> set ser' \<subseteq> set ser"
  by (induction ser rule: read_series.induct) auto

lemma scan_from_Some:
  assumes "scan_from hlp 0 = Some (a, b, c, d)"
  shows "\<exists>i. marker_at hlp i \<and> (\<forall>j<i. \<not> marker_at hlp j) \<and>
           py_float (py_slice hlp (i + 2) (i + 6)) = Inr a \<and>
           py_float (py_slice hlp (i + 9) (i + 13)) = Inr b \<and>
           py_float (py_slice hlp (i + 16) (i + 20)) = Inr c \<and>
           py_float (py_slice hlp (i + 23) (i + 27)) = Inr d"
proof -
  have "\<exists>j. marker_at hlp j"
  proof (rule ccontr)
    assume "\<not> (\<exists>j. marker_at hlp j)"
    then have "scan_from hlp 0 = None" by (intro scan_from_no_marker) simp
    with assms show False by simp
  qed
  then obtain i where i: "marker_at hlp i" "\<forall>j<i. \<not> marker_at hlp j"
    using exists_least_iff [of "marker_at hlp"] by auto
  then have "(case try_frame hlp i of Inl e \<Rightarrow> None | Inr None \<Rightarrow> None | Inr (Some q) \<Rightarrow> Some q)
      = Some (a, b, c, d)"
    using assms by (simp add: scan_from_first_marker)
  then have "try_frame hlp i = Inr (Some (a, b, c, d))"
    by (auto split: sum.splits option.splits)
  then have "py_float (py_slice hlp (i + 2) (i + 6)) = Inr a \<and>
           py_float (py_slice hlp (i + 9) (i + 13)) = Inr b \<and>
           py_float (py_slice hlp (i + 16) (i + 20)) = Inr c \<and>
           py_float (py_slice hlp (i + 23) (i + 27)) = Inr d"
    using i(1) by (auto simp: try_frame_marker split: sum.splits)
  with i show ?thesis by blast
qed

lemma get_voltages_Some:
  assumes "get_voltages ser = Some ((a, b, c, d), rest)"
  shows "\<exists>hlp i. Decoded hlp \<in> set ser \<and> marker_at hlp i \<and> (\<forall>j<i. \<not> marker_at hlp j) \<and>
           py_float (py_slice hlp (i + 2) (i + 6)) = Inr a \<and>
           py_float (py_slice hlp (i + 9) (i + 13)) = Inr b \<and>
           py_float (py_slice hlp (i + 16) (i + 20)) = Inr c \<and>
           py_float (py_slice hlp (i + 23) (i + 27)) = Inr d"
  using assms
proof (induction ser rule: get_voltages.induct)
  case (1 ser)
  from "1.prems" obtain hlp ser' where rs: "read_series ser = Some (hlp, ser')"
    by (subst (asm) get_voltages.simps) (auto split: option.splits)
  note mem = read_series_mem [OF rs]
  show ?case
  proof (cases "scan_from hlp 0")
    case None
    then have "get_voltages ser = get_voltages ser'" using rs by (rule get_voltages_retry [rotated])
    then have "get_voltages ser' = Some ((a, b, c, d), rest)" using "1.prems" by simp
    then obtain h i where "Decoded h \<in> set ser'" "marker_at h i" "\<forall>j<i. \<not> marker_at h j"
        "py_float (py_slice h (i + 2) (i + 6)) = Inr a"
        "py_float (py_slice h (i + 9) (i + 13)) = Inr b"
        "py_float (py_slice h (i + 16) (i + 20)) = Inr c"
        "py_float (py_slice h (i + 23) (i + 27)) = Inr d"
      using "1.IH" [OF rs refl None] by blast
    then show ?thesis using mem by blast
  next
    case (Some q)
    then have "get_voltages ser = Some (q, ser')" using rs by (rule get_voltages_found [rotated])
    then have "scan_from hlp 0 = Some (a, b, c, d)" using "1.prems" Some by simp
    from scan_from_Some [OF this] show ?thesis using mem by blast
  qed
qed

text \<open>
  Claim C5 says that a text too short for the offsets is abandoned. A chunk of 26
  characters with the marker at position \<open>0\<close> ends inside the last field: the range
  \<open>23..27\<close> holds only \<open>1.7\<close>. The slice is cut at the end of the text, \<open>1.7\<close> parses,
  and \<open>get_voltages\<close> returns a quadruple from this chunk.
\<close>

theorem get_voltages_short_text_counterexample:
  "length (''\<newline>41.23'' @ [CHR 0x0D] @ ''\<newline>52.34'' @ [CHR 0x0D] @ ''\<newline>61.65'' @ [CHR 0x0D]
      @ ''\<newline>71.7'') = 26 \<and>
   marker_at (''\<newline>41.23'' @ [CHR 0x0D] @ ''\<newline>52.34'' @ [CHR 0x0D] @ ''\<newline>61.65'' @ [CHR 0x0D]
      @ ''\<newline>71.7'') 0 \<and>
   py_slice (''\<newline>41.23'' @ [CHR 0x0D] @ ''\<newline>52.34'' @ [CHR 0x0D] @ ''\<newline>61.65'' @ [CHR 0x0D]
      @ ''\<newline>71.7'') (0 + 23) (0 + 27) = ''1.7'' \<and>
   get_voltages [Decoded (''\<newline>41.23'' @ [CHR 0x0D] @ ''\<newline>52.34'' @ [CHR 0x0D] @ ''\<newline>61.65''
      @ [CHR 0x0D] @ ''\<newline>71.7'')] = Some ((Fin 1.23, Fin 2.34, Fin 1.65, Fin 1.7), [])"
proof -
  let ?hlp = "''\<newline>41.23'' @ [CHR 0x0D] @ ''\<newline>52.34'' @ [CHR 0x0D] @ ''\<newline>61.65'' @ [CHR 0x0D]
      @ ''\<newline>71.7''"
  have m: "marker_at ?hlp 0" by (simp add: marker_at_def)
  have s: "py_slice ?hlp (0 + 2) (0 + 6) = ''1.23''" "py_slice ?hlp (0 + 9) (0 + 13) = ''2.34''"
    "py_slice ?hlp (0 + 16) (0 + 20) = ''1.65''" "py_slice ?hlp (0 + 23) (0 + 27) = ''1.7''"
    by (simp_all add: py_slice_def)
  have f: "py_float ''1.23'' = Inr (Fin 1.23)" "py_float ''2.34'' = Inr (Fin 2.34)"
    "py_float ''1.65'' = Inr (Fin 1.65)" "py_float ''1.7'' = Inr (Fin 1.7)"
    by (simp_all add: py_float_eval)
  have "scan_from ?hlp 0 = Some (Fin 1.23, Fin 2.34, Fin 1.65, Fin 1.7)"
    by (rule scan_from_frame [where i = 0]) (simp_all only: m s f, simp_all)
  then have "get_voltages [Decoded ?hlp] = Some ((Fin 1.23, Fin 2.34, Fin 1.65, Fin 1.7), [])"
    by (intro get_voltages_found) simp_all
  then show ?thesis using m s(4) by simp
qed

text \<open>
  Claim C5 as the code has it. Let \<open>hlp\<close> be the text \<open>read_series\<close> delivers. With
  \<open>i\<close> the first position of a marker: when the four slices \<open>i+2..i+6\<close>, \<open>i+9..i+13\<close>,
  \<open>i+16..i+20\<close>, \<open>i+23..i+27\<close> (each cut at the end of the text) parse as floats,
  \<open>get_voltages\<close> returns these four values; when one of them does not parse, the chunk
  is abandoned whatever follows that marker, and \<open>get_voltages\<close> goes on with a fresh
  chunk. When the text has no marker, the chunk is abandoned as well. And whenever
  \<open>get_voltages\<close> returns a quadruple, some chunk it read has a first marker whose four
  slices parse to the four values returned.
\<close>

theorem get_voltages_first_marker:
  assumes "read_series ser = Some (hlp, ser')"
  shows
    "(marker_at hlp i \<and> (\<forall>j<i. \<not> marker_at hlp j) \<and>
      py_float (py_slice hlp (i + 2) (i + 6)) = Inr voltage_room \<and>
      py_float (py_slice hlp (i + 9) (i + 13)) = Inr voltage_cryo \<and>
      py_float (py_slice hlp (i + 16) (i + 20)) = Inr voltage_ICR \<and>
      py_float (py_slice hlp (i + 23) (i + 27)) = Inr voltage_ICH \<longrightarrow>
      get_voltages ser = Some ((voltage_room, voltage_cryo, voltage_ICR, voltage_ICH), ser')) \<and>
     (marker_at hlp i \<and> (\<forall>j<i. \<not> marker_at hlp j) \<and>
      (py_float (py_slice hlp (i + 2) (i + 6)) = Inl e \<or>
       py_float (py_slice hlp (i + 9) (i + 13)) = Inl e \<or>
       py_float (py_slice hlp (i + 16) (i + 20)) = Inl e \<or>
       py_float (py_slice hlp (i + 23) (i + 27)) = Inl e) \<longrightarrow>
      get_voltages ser = get_voltages ser') \<and>
     ((\<forall>j. \<not> marker_at hlp j) \<longrightarrow> get_voltages ser = get_voltages ser') \<and>
     (get_voltages ser = Some ((a, b, c, d), rest) \<longrightarrow>
      (\<exists>h k. Decoded h \<in> set ser \<and> marker_at h k \<and> (\<forall>j<k. \<not> marker_at h j) \<and>
         py_float (py_slice h (k + 2) (k + 6)) = Inr a \<and>
         py_float (py_slice h (k + 9) (k + 13)) = Inr b \<and>
         py_float (py_slice h (k + 16) (k + 20)) = Inr c \<and>
         py_float (py_slice h (k + 23) (k + 27)) = Inr d))"
proof (intro conjI impI)
  assume "marker_at hlp i \<and> (\<forall>j<i. \<not> marker_at hlp j) \<and>
      py_float (py_slice hlp (i + 2) (i + 6)) = Inr voltage_room \<and>
      py_float (py_slice hlp (i + 9) (i + 13)) = Inr voltage_cryo \<and>
      py_float (py_slice hlp (i + 16) (i + 20)) = Inr voltage_ICR \<and>
      py_float (py_slice hlp (i + 23) (i + 27)) = Inr voltage_ICH"
  then have "scan_from hlp 0 = Some (voltage_room, voltage_cryo, voltage_ICR, voltage_ICH)"
    using scan_from_frame [of hlp i] by blast
  with assms show "get_voltages ser =
      Some ((voltage_room, voltage_cryo, voltage_ICR, voltage_ICH), ser')"
    by (rule get_voltages_found)
next
  assume "marker_at hlp i \<and> (\<forall>j<i. \<not> marker_at hlp j) \<and>
      (py_float (py_slice hlp (i + 2) (i + 6)) = Inl e \<or>
       py_float (py_slice hlp (i + 9) (i + 13)) = Inl e \<or>
       py_float (py_slice hlp (i + 16) (i + 20)) = Inl e \<or>
       py_float (py_slice hlp (i + 23) (i + 27)) = Inl e)"
  then have "scan_from hlp 0 = None"
    using scan_from_bad_field [of hlp i e] by blast
  with assms show "get_voltages ser = get_voltages ser'" by (rule get_voltages_retry)
next
  assume "\<forall>j. \<not> marker_at hlp j"
  then have "scan_from hlp 0 = None" by (intro scan_from_no_marker) simp
  with assms show "get_voltages ser = get_voltages ser'" by (rule get_voltages_retry)
next
  assume "get_voltages ser = Some ((a, b, c, d), rest)"
  then show "\<exists>h k. Decoded h \<in> set ser \<and> marker_at h k \<and> (\<forall>j<k. \<not> marker_at h j) \<and>
         py_float (py_slice h (k + 2) (k + 6)) = Inr a \<and>
         py_float (py_slice h (k + 9) (k + 13)) = Inr b \<and>
         py_float (py_slice h (k + 16) (k + 20)) = Inr c \<and>
         py_float (py_slice h (k + 23) (k + 27)) = Inr d"
    by (rule get_voltages_Some)
qed

lemma no_newline_no_marker:
  assumes "CHR 0x0A \<notin> set hlp"
  shows "\<not> marker_at hlp j"
proof
  assume m: "marker_at hlp j"
  then have "j < length hlp" by (simp add: marker_at_def)
  then have "hlp ! j \<in> set hlp" by (rule nth_mem)
  with m assms show False by (simp add: marker_at_def)
qed

lemma frame_text_fields:
  fixes hlp :: string
  defines "hlp \<equiv> ''xy\<newline>41.23'' @ [CHR 0x0D] @ ''\<newline>52.34'' @ [CHR 0x0D] @ ''\<newline>61.65'' @ [CHR 0x0D]
      @ ''\<newline>71.70'' @ [CHR 0x0D] @ ''\<newline>41.2''"
  shows "marker_at hlp 2" "\<forall>j<2. \<not> marker_at hlp j"
    "py_float (py_slice hlp (2 + 2) (2 + 6)) = Inr (Fin 1.23)"
    "py_float (py_slice hlp (2 + 9) (2 + 13)) = Inr (Fin 2.34)"
    "py_float (py_slice hlp (2 + 16) (2 + 20)) = Inr (Fin 1.65)"
    "py_float (py_slice hlp (2 + 23) (2 + 27)) = Inr (Fin 1.7)"
proof -
  show "marker_at hlp 2" by (simp add: marker_at_def hlp_def)
  have "\<not> marker_at hlp 0" "\<not> marker_at hlp 1" by (simp_all add: marker_at_def hlp_def)
  then show "\<forall>j<2. \<not> marker_at hlp j" by (simp add: numeral_2_eq_2 less_Suc_eq)
  have s: "py_slice hlp (2 + 2) (2 + 6) = ''1.23''" "py_slice hlp (2 + 9) (2 + 13) = ''2.34''"
    "py_slice hlp (2 + 16) (2 + 20) = ''1.65''" "py_slice hlp (2 + 23) (2 + 27) = ''1.70''"
    by (simp_all add: py_slice_def hlp_def)
  show "py_float (py_slice hlp (2 + 2) (2 + 6)) = Inr (Fin 1.23)"
    "py_float (py_slice hlp (2 + 9) (2 + 13)) = Inr (Fin 2.34)"
    "py_float (py_slice hlp (2 + 16) (2 + 20)) = Inr (Fin 1.65)"
    "py_float (py_slice hlp (2 + 23) (2 + 27)) = Inr (Fin 1.7)"
    unfolding s by (simp_all add: py_float_eval)
qed

text \<open>
  A chunk that does not decode, a text without marker, then a text whose first marker
  stands at position \<open>2\<close> and is followed by a whole frame (and by the start of a second
  one, which is not used).
\<close>

theorem get_voltages_first_marker_witness:
  "get_voltages [Undecodable, Decoded ''12.3 no frame'',
      Decoded (''xy\<newline>41.23'' @ [CHR 0x0D] @ ''\<newline>52.34'' @ [CHR 0x0D] @ ''\<newline>61.65'' @ [CHR 0x0D]
        @ ''\<newline>71.70'' @ [CHR 0x0D] @ ''\<newline>41.2''), Undecodable]
   = Some ((Fin 1.23, Fin 2.34, Fin 1.65, Fin 1.7), [Undecodable])"
proof -
  let ?hlp = "''xy\<newline>41.23'' @ [CHR 0x0D] @ ''\<newline>52.34'' @ [CHR 0x0D] @ ''\<newline>61.65'' @ [CHR 0x0D]
      @ ''\<newline>71.70'' @ [CHR 0x0D] @ ''\<newline>41.2''"
  let ?ser' = "[Decoded ?hlp, Undecodable]"
  have r1: "read_series (Undecodable # Decoded ''12.3 no frame'' # ?ser')
      = Some (''12.3 no frame'', ?ser')" by simp
  have "\<forall>j. \<not> marker_at ''12.3 no frame'' j" by (simp add: no_newline_no_marker)
  with get_voltages_first_marker [OF r1]
  have 1: "get_voltages (Undecodable # Decoded ''12.3 no frame'' # ?ser') = get_voltages ?ser'"
    by blast
  have r2: "read_series ?ser' = Some (?hlp, [Undecodable])" by simp
  have 2: "get_voltages ?ser' = Some ((Fin 1.23, Fin 2.34, Fin 1.65, Fin 1.7), [Undecodable])"
    using get_voltages_first_marker [OF r2, where i = 2] frame_text_fields by blast
  show ?thesis using 1 2 by simp
qed

text \<open>
  Claim C6 says that extraction succeeds on the buffer \<open>\n4123 4567 8901 2345\<close>. Its
  marker stands at \<open>0\<close>; the slice \<open>2..6\<close> is \<open>123 \<close>, but the slice \<open>9..13\<close> is
  \<open>7 89\<close>, which \<open>float\<close> rejects. The chunk is abandoned: with nothing more to read,
  \<open>get_voltages\<close> has returned nothing.
\<close>

theorem get_voltages_spec_buffer_counterexample:
  "marker_at ''\<newline>4123 4567 8901 2345'' 0 \<and>
   py_slice ''\<newline>4123 4567 8901 2345'' (0 + 2) (0 + 6) = ''123 '' \<and>
   py_slice ''\<newline>4123 4567 8901 2345'' (0 + 9) (0 + 13) = ''7 89'' \<and>
   py_float ''7 89'' = Inl ValueError \<and>
   scan_from ''\<newline>4123 4567 8901 2345'' 0 = None \<and>
   get_voltages [Decoded ''\<newline>4123 4567 8901 2345''] = None"
proof -
  let ?hlp = "''\<newline>4123 4567 8901 2345''"
  have m: "marker_at ?hlp 0" by (simp add: marker_at_def)
  have s: "py_slice ?hlp (0 + 2) (0 + 6) = ''123 ''" "py_slice ?hlp (0 + 9) (0 + 13) = ''7 89''"
    by (simp_all add: py_slice_def)
  have f: "py_float ''7 89'' = Inl ValueError" by (simp add: py_float_eval)
  have sc: "scan_from ?hlp 0 = None"
    by (rule scan_from_bad_field [where i = 0 and e = ValueError]) (simp_all only: m s f, simp_all)
  have "get_voltages [Decoded ?hlp] = get_voltages []"
    using sc by (intro get_voltages_retry) simp_all
  also have "\<dots> = None" by (subst get_voltages.simps) simp
  finally show ?thesis using m s f sc by simp
qed

text \<open>
  Claim C6 as the code has it: on a buffer whose four fields stand at the stated
  offsets, such as the frame \<open>\n41.23\r\n52.34\r\n61.65\r\n71.70\<close>, extraction returns
  the exact four floats and leaves the rest of the stream unread; on the buffer
  \<open>\n4123 4567 8901 2345\<close>, and on every buffer without a marker, it requests another
  read.
\<close>

theorem get_voltages_well_formed_frame:
  "get_voltages (Decoded (''\<newline>41.23'' @ [CHR 0x0D] @ ''\<newline>52.34'' @ [CHR 0x0D] @ ''\<newline>61.65''
      @ [CHR 0x0D] @ ''\<newline>71.70'') # ser)
     = Some ((Fin 1.23, Fin 2.34, Fin 1.65, Fin 1.7), ser) \<and>
   get_voltages (Decoded ''\<newline>4123 4567 8901 2345'' # ser) = get_voltages ser \<and>
   ((\<forall>j. \<not> marker_at hlp j) \<longrightarrow> get_voltages (Decoded hlp # ser) = get_voltages ser)"
proof (intro conjI impI)
  let ?hlp = "''\<newline>41.23'' @ [CHR 0x0D] @ ''\<newline>52.34'' @ [CHR 0x0D] @ ''\<newline>61.65''
      @ [CHR 0x0D] @ ''\<newline>71.70''"
  have m: "marker_at ?hlp 0" by (simp add: marker_at_def)
  have s: "py_slice ?hlp (0 + 2) (0 + 6) = ''1.23''" "py_slice ?hlp (0 + 9) (0 + 13) = ''2.34''"
    "py_slice ?hlp (0 + 16) (0 + 20) = ''1.65''" "py_slice ?hlp (0 + 23) (0 + 27) = ''1.70''"
    by (simp_all add: py_slice_def)
  have f: "py_float ''1.23'' = Inr (Fin 1.23)" "py_float ''2.34'' = Inr (Fin 2.34)"
    "py_float ''1.65'' = Inr (Fin 1.65)" "py_float ''1.70'' = Inr (Fin 1.7)"
    by (simp_all add: py_float_eval)
  have "scan_from ?hlp 0 = Some (Fin 1.23, Fin 2.34, Fin 1.65, Fin 1.7)"
    by (rule scan_from_frame [where i = 0]) (simp_all only: m s f, simp_all)
  then show "get_voltages (Decoded ?hlp # ser) = Some ((Fin 1.23, Fin 2.34, Fin 1.65, Fin 1.7), ser)"
    by (intro get_voltages_found) simp_all
next
  let ?hlp = "''\<newline>4123 4567 8901 2345''"
  have m: "marker_at ?hlp 0" by (simp add: marker_at_def)
  have s: "py_slice ?hlp (0 + 9) (0 + 13) = ''7 89''" by (simp add: py_slice_def)
  have f: "py_float ''7 89'' = Inl ValueError" by (simp add: py_float_eval)
  have "scan_from ?hlp 0 = None"
    by (rule scan_from_bad_field [where i = 0 and e = ValueError]) (simp_all only: m s f, simp_all)
  then show "get_voltages (Decoded ?hlp # ser) = get_voltages ser"
    by (intro get_voltages_retry) simp_all
next
  assume "\<forall>j. \<not> marker_at hlp j"
  then have "scan_from hlp 0 = None" by (intro scan_from_no_marker) simp
  then show "get_voltages (Decoded hlp # ser) = get_voltages ser"
    by (intro get_voltages_retry) simp_all
qed

text \<open>
  A buffer without marker, the buffer of the claim, and a frame: the values come from
  the third read.
\<close>

theorem get_voltages_well_formed_frame_witness:
  "get_voltages [Decoded ''1.23 2.34 1.65 1.70'', Decoded ''\<newline>4123 4567 8901 2345'',
      Decoded (''\<newline>41.23'' @ [CHR 0x0D] @ ''\<newline>52.34'' @ [CHR 0x0D] @ ''\<newline>61.65''
        @ [CHR 0x0D] @ ''\<newline>71.70'')]
     = Some ((Fin 1.23, Fin 2.34, Fin 1.65, Fin 1.7), [])"
proof -
  have "\<forall>j. \<not> marker_at ''1.23 2.34 1.65 1.70'' j" by (simp add: no_newline_no_marker)
  then show ?thesis
    using get_voltages_well_formed_frame [of "[]" "''1.23 2.34 1.65 1.70''"]
      get_voltages_well_formed_frame [of "[Decoded (''\<newline>41.23'' @ [CHR 0x0D] @ ''\<newline>52.34''
        @ [CHR 0x0D] @ ''\<newline>61.65'' @ [CHR 0x0D] @ ''\<newline>71.70'')]" "''1.23 2.34 1.65 1.70''"]
      get_voltages_well_formed_frame [of "[Decoded ''\<newline>4123 4567 8901 2345'',
        Decoded (''\<newline>41.23'' @ [CHR 0x0D] @ ''\<newline>52.34''
        @ [CHR 0x0D] @ ''\<newline>61.65'' @ [CHR 0x0D] @ ''\<newline>71.70'')]" "''1.23 2.34 1.65 1.70''"]
    by simp
qed

section \<open>Properties of the logging loop\<close>

lemma name_eq_iff [simp]:
  "name_room d = name_room d' \<longleftrightarrow> d = d'" "name_cryo d = name_cryo d' \<longleftrightarrow> d = d'"
  "name_rough d = name_rough d' \<longleftrightarrow> d = d'" "name_temp d = name_temp d' \<longleftrightarrow> d = d'"
  by (simp_all add: name_room_def name_cryo_def name_rough_def name_temp_def)

lemma name_neq [simp]:
  "name_room d \<noteq> name_cryo d'" "name_room d \<noteq> name_rough d'" "name_room d \<noteq> name_temp d'"
  "name_cryo d \<noteq> name_room d'" "name_cryo d \<noteq> name_rough d'" "name_cryo d \<noteq> name_temp d'"
  "name_rough d \<noteq> name_room d'" "name_rough d \<noteq> name_cryo d'" "name_rough d \<noteq> name_temp d'"
  "name_temp d \<noteq> name_room d'" "name_temp d \<noteq> name_cryo d'" "name_temp d \<noteq> name_rough d'"
  by (simp_all add: name_room_def name_cryo_def name_rough_def name_temp_def
      path_room_def path_cryo_def path_rough_def path_temp_def backslash_def)



lemma trace_start: "trace (start d) = map Opened (log_names d)"
  by (simp add: start_def open_files_def)














end
